theory Spec2Isabelle
  imports Main
begin

section \<open>Data model\<close>

text \<open>
  The structs of the chaincode. Go strings are byte sequences, as \<open>string\<close> is; Go's
  \<open>[2]int\<close> is a pair whose first component is index 0 and whose second is index 1; the
  coordinates are only ever compared, never added, so \<open>int\<close> stands for Go's \<open>int\<close>.
  A slice is a list (a nil slice and an empty one are both \<open>[]\<close>).
\<close>

record Trackable =
  Trackable_Id :: string
  Trackable_Value :: string

text \<open>
  Modelled from the spec: the declaration of \<open>User\<close> that the current contract compiles
  against is not under src (in the type file there, \<open>User\<close> has no salt). The spec's
  identity has a raw identifier, a commitment that takes its place once stored, and a
  salt stored in clear; the contract and its tests name the fields \<open>Id\<close>, \<open>Name\<close> and
  \<open>Salt\<close> (\<open>geoCache.Owner.Salt\<close>, \<open>u.Salt = "123"\<close>). \<open>Report\<close> and \<open>GeoCache\<close> are
  as in the type file.
\<close>

record User =
  User_Id :: string
  User_Name :: string
  User_Salt :: string

record Report =
  Report_Id :: string
  Report_Message :: string
  Report_Notifier :: User

record GeoCache =
  GeoCache_Id :: string
  Name :: string
  Description :: string
  XcoordRange :: "int \<times> int"
  YcoordRange :: "int \<times> int"
  Owner :: User
  Reports :: "Report list"
  Visitors :: "User list"
  Trackable :: Trackable

text \<open>The zero values that \<open>new(T)\<close> allocates.\<close>

definition new_Trackable :: Trackable where
  "new_Trackable = \<lparr>Trackable_Id = [], Trackable_Value = []\<rparr>"

definition new_User :: User where
  "new_User = \<lparr>User_Id = [], User_Name = [], User_Salt = []\<rparr>"

definition new_Report :: Report where
  "new_Report = \<lparr>Report_Id = [], Report_Message = [], Report_Notifier = new_User\<rparr>"

definition new_GeoCache :: GeoCache where
  "new_GeoCache = \<lparr>GeoCache_Id = [], Name = [], Description = [],
     XcoordRange = (0, 0), YcoordRange = (0, 0), Owner = new_User,
     Reports = [], Visitors = [], Trackable = new_Trackable\<rparr>"

section \<open>Errors\<close>

text \<open>
  Every \<open>fmt.Errorf\<close> of the contract is a constructor; an error that the stub returns from
  \<open>PutState\<close> or \<open>DelState\<close> is handed on as it is (\<open>StubError\<close>).
\<close>

datatype error =
    WorldStateReadError string
  | AlreadyExists string
  | DoesNotExist string
  | UnmarshalError
  | NotOwnerUpdate
  | NotOwnerReports
  | NotInRange
  | StubError string

fun error_string :: "error \<Rightarrow> string" where
  "error_string (WorldStateReadError err) = ''Could not read from world state. '' @ err"
| "error_string (AlreadyExists k) = ''The asset '' @ k @ '' already exists''"
| "error_string (DoesNotExist k) = ''The asset '' @ k @ '' does not exist''"
| "error_string UnmarshalError = ''Could not unmarshal world state data to type GeoCache''"
| "error_string NotOwnerUpdate = ''Only the owner can update a cache!''"
| "error_string NotOwnerReports = ''Only the owner can get the reports!''"
| "error_string NotInRange = ''You are not in the cache's location range!''"
| "error_string (StubError err) = err"

section \<open>The world state and the JSON encoding\<close>

text \<open>
  The value stored under a key is a byte slice. The contract only ever writes
  \<open>json.Marshal\<close> of a record and reads a record back with \<open>json.Unmarshal\<close>, so a byte
  slice is identified with what it decodes to: \<open>JSON g\<close> are the bytes that decode to the
  record \<open>g\<close>, \<open>Other s\<close> are bytes that do not decode (the tests' \<open>"some value"\<close>). A nil
  slice is \<open>None\<close>.
\<close>

datatype 'a bytes = JSON 'a | Other string

definition json_Marshal :: "'a \<Rightarrow> 'a bytes" where
  "json_Marshal g = JSON g"

fun json_Unmarshal :: "'a bytes option \<Rightarrow> 'a option" where
  "json_Unmarshal (Some (JSON g)) = Some g"
| "json_Unmarshal (Some (Other s)) = None"
| "json_Unmarshal None = None"

text \<open>
  The transaction context: the world state, and for each of the stub's three calls the
  error it returns for a key, if any (the tests' \<open>"statebad"\<close>).
\<close>

record 'a stub =
  world :: "string \<rightharpoonup> 'a bytes"
  getStateErr :: "string \<rightharpoonup> string"
  putStateErr :: "string \<rightharpoonup> string"
  delStateErr :: "string \<rightharpoonup> string"

definition GetState :: "'a stub \<Rightarrow> string \<Rightarrow> 'a bytes option \<times> string option" where
  "GetState ctx key =
     (case getStateErr ctx key of
        Some err \<Rightarrow> (None, Some err)
      | None \<Rightarrow> (world ctx key, None))"

definition PutState :: "'a stub \<Rightarrow> string \<Rightarrow> 'a bytes \<Rightarrow> error option \<times> 'a stub" where
  "PutState ctx key val =
     (case putStateErr ctx key of
        Some err \<Rightarrow> (Some (StubError err), ctx)
      | None \<Rightarrow> (None, ctx\<lparr>world := (world ctx)(key \<mapsto> val)\<rparr>))"

definition DelState :: "'a stub \<Rightarrow> string \<Rightarrow> error option \<times> 'a stub" where
  "DelState ctx key =
     (case delStateErr ctx key of
        Some err \<Rightarrow> (Some (StubError err), ctx)
      | None \<Rightarrow> (None, ctx\<lparr>world := (world ctx)(key := None)\<rparr>))"

section \<open>Identity commitment\<close>

text \<open>
  \<open>hex.EncodeToString\<close>: two lower-case hexadecimal digits for each byte.
\<close>

definition hextable :: string where
  "hextable = ''0123456789abcdef''"

fun hex_EncodeToString :: "string \<Rightarrow> string" where
  "hex_EncodeToString [] = []"
| "hex_EncodeToString (c # cs) =
     hextable ! (of_char c div 16) # hextable ! (of_char c mod 16) # hex_EncodeToString cs"

text \<open>
  \<open>myHash\<close>. The digest of \<open>crypto/sha1\<close> (\<open>sha1.New\<close>, \<open>Write\<close>, \<open>Sum(nil)\<close>) is the
  parameter \<open>sha1\<close>, a function from the bytes written to the digest. The loop is the
  source's: the counter starts at 1 and the body runs while it is below 100.
\<close>

function myHash_loop :: "(string \<Rightarrow> string) \<Rightarrow> nat \<Rightarrow> string \<Rightarrow> string" where
  "myHash_loop sha1 n s = (if n < 100 then myHash_loop sha1 (n + 1) (sha1 s) else s)"
  by pat_completeness auto
termination
  by (relation "measure (\<lambda>(sha1, n, s). 100 - n)") auto

declare myHash_loop.simps [simp del]

definition myHash :: "(string \<Rightarrow> string) \<Rightarrow> string \<Rightarrow> string" where
  "myHash sha1 s = hex_EncodeToString (myHash_loop sha1 1 s)"

section \<open>The contract\<close>

text \<open>
  Each method takes the context and returns its result together with the context after
  it. A method that returns only \<open>error\<close> returns \<open>error option\<close> (\<open>None\<close> is \<open>nil\<close>).
  \<open>generateRandomString\<close> draws from the process-wide generator seeded from the clock;
  the strings it returns are arguments of the methods that call it (\<open>salt\<close>,
  \<open>trackableId\<close>, \<open>reportId\<close>).
\<close>

definition GeoCacheExists :: "'a stub \<Rightarrow> string \<Rightarrow> bool \<times> string option" where
  "GeoCacheExists ctx geoCacheID =
     (case GetState ctx geoCacheID of
        (dat, Some err) \<Rightarrow> (False, Some err)
      | (dat, None) \<Rightarrow> (dat \<noteq> None, None))"

definition CreateGeoCache ::
  "(string \<Rightarrow> string) \<Rightarrow> GeoCache stub \<Rightarrow> User \<Rightarrow> string \<Rightarrow> string \<Rightarrow> string \<Rightarrow>
   int \<times> int \<Rightarrow> int \<times> int \<Rightarrow> string \<Rightarrow> string \<Rightarrow> string \<Rightarrow> error option \<times> GeoCache stub" where
  "CreateGeoCache sha1 ctx user geoCacheID name description newXcoordRange newYcoordRange
     trackableValue salt trackableId =
     (case GeoCacheExists ctx geoCacheID of
        (exists, Some err) \<Rightarrow> (Some (WorldStateReadError err), ctx)
      | (exists, None) \<Rightarrow>
          if exists then (Some (AlreadyExists geoCacheID), ctx)
          else
            let geoCache = new_GeoCache\<lparr>Name := name, Description := description,
                  XcoordRange := newXcoordRange, YcoordRange := newYcoordRange,
                  Owner := user\<rparr>;
                geoCache = geoCache\<lparr>Owner := (Owner geoCache)\<lparr>User_Salt := salt\<rparr>\<rparr>;
                geoCache = geoCache\<lparr>Owner := (Owner geoCache)
                  \<lparr>User_Id := myHash sha1 (User_Id user @ User_Salt (Owner geoCache))\<rparr>\<rparr>;
                geoCache = geoCache\<lparr>Reports := [], Visitors := []\<rparr>;
                trackable = new_Trackable\<lparr>Trackable_Id := trackableId,
                  Trackable_Value := trackableValue\<rparr>;
                geoCache = geoCache\<lparr>Trackable := trackable\<rparr>
            in PutState ctx geoCacheID (json_Marshal geoCache))"

definition ReadGeoCache :: "GeoCache stub \<Rightarrow> string \<Rightarrow> error + GeoCache" where
  "ReadGeoCache ctx geoCacheId =
     (case GeoCacheExists ctx geoCacheId of
        (exists, Some err) \<Rightarrow> Inl (WorldStateReadError err)
      | (exists, None) \<Rightarrow>
          if \<not> exists then Inl (DoesNotExist geoCacheId)
          else (case json_Unmarshal (fst (GetState ctx geoCacheId)) of
                  None \<Rightarrow> Inl UnmarshalError
                | Some geoCache \<Rightarrow> Inr geoCache))"

definition UpdateGeoCache ::
  "(string \<Rightarrow> string) \<Rightarrow> GeoCache stub \<Rightarrow> User \<Rightarrow> string \<Rightarrow> string \<Rightarrow> string \<Rightarrow>
   error option \<times> GeoCache stub" where
  "UpdateGeoCache sha1 ctx user geoCacheId newName newDescription =
     (case GeoCacheExists ctx geoCacheId of
        (exists, Some err) \<Rightarrow> (Some (WorldStateReadError err), ctx)
      | (exists, None) \<Rightarrow>
          if \<not> exists then (Some (DoesNotExist geoCacheId), ctx)
          else (case json_Unmarshal (fst (GetState ctx geoCacheId)) of
                  None \<Rightarrow> (Some UnmarshalError, ctx)
                | Some geoCache \<Rightarrow>
                    if User_Id (Owner geoCache)
                         \<noteq> myHash sha1 (User_Id user @ User_Salt (Owner geoCache))
                    then (Some NotOwnerUpdate, ctx)
                    else PutState ctx geoCacheId
                           (json_Marshal (geoCache\<lparr>Name := newName,
                              Description := newDescription\<rparr>))))"

definition AddVisitorToGeoCache ::
  "GeoCache stub \<Rightarrow> User \<Rightarrow> string \<Rightarrow> int \<Rightarrow> int \<Rightarrow> error option \<times> GeoCache stub" where
  "AddVisitorToGeoCache ctx user geoCacheId Xcoord Ycoord =
     (case GeoCacheExists ctx geoCacheId of
        (exists, Some err) \<Rightarrow> (Some (WorldStateReadError err), ctx)
      | (exists, None) \<Rightarrow>
          if \<not> exists then (Some (DoesNotExist geoCacheId), ctx)
          else (case json_Unmarshal (fst (GetState ctx geoCacheId)) of
                  None \<Rightarrow> (Some UnmarshalError, ctx)
                | Some geoCache \<Rightarrow>
                    let Xin = (Xcoord > fst (XcoordRange geoCache)
                                 \<and> Xcoord < snd (XcoordRange geoCache));
                        Yin = (Ycoord > fst (YcoordRange geoCache)
                                 \<and> Ycoord < snd (YcoordRange geoCache))
                    in if \<not> Xin \<or> \<not> Yin then (Some NotInRange, ctx)
                       else PutState ctx geoCacheId
                              (json_Marshal (geoCache\<lparr>Visitors :=
                                 Visitors geoCache @ [user]\<rparr>))))"

text \<open>
  \<open>SwitchTrackable\<close> returns a pointer and an error; on its last line both are set when
  \<open>PutState\<close> fails, so the result is a pair.
\<close>

definition SwitchTrackable ::
  "GeoCache stub \<Rightarrow> Trackable \<Rightarrow> string \<Rightarrow> (Trackable option \<times> error option) \<times> GeoCache stub" where
  "SwitchTrackable ctx trackable geoCacheId =
     (case GeoCacheExists ctx geoCacheId of
        (exists, Some err) \<Rightarrow> ((None, Some (WorldStateReadError err)), ctx)
      | (exists, None) \<Rightarrow>
          if \<not> exists then ((None, Some (DoesNotExist geoCacheId)), ctx)
          else (case json_Unmarshal (fst (GetState ctx geoCacheId)) of
                  None \<Rightarrow> ((None, Some UnmarshalError), ctx)
                | Some geoCache \<Rightarrow>
                    let cacheTrackable = Trackable geoCache;
                        geoCache = geoCache\<lparr>Trackable := trackable\<rparr>;
                        (err, ctx') = PutState ctx geoCacheId (json_Marshal geoCache)
                    in ((Some cacheTrackable, err), ctx')))"

definition UpdateCoordGeoCache ::
  "(string \<Rightarrow> string) \<Rightarrow> GeoCache stub \<Rightarrow> User \<Rightarrow> string \<Rightarrow> int \<times> int \<Rightarrow> int \<times> int \<Rightarrow>
   error option \<times> GeoCache stub" where
  "UpdateCoordGeoCache sha1 ctx user geoCacheId newXcoordRange newYcoordRange =
     (case GeoCacheExists ctx geoCacheId of
        (exists, Some err) \<Rightarrow> (Some (WorldStateReadError err), ctx)
      | (exists, None) \<Rightarrow>
          if \<not> exists then (Some (DoesNotExist geoCacheId), ctx)
          else (case json_Unmarshal (fst (GetState ctx geoCacheId)) of
                  None \<Rightarrow> (Some UnmarshalError, ctx)
                | Some geoCache \<Rightarrow>
                    if User_Id (Owner geoCache)
                         \<noteq> myHash sha1 (User_Id user @ User_Salt (Owner geoCache))
                    then (Some NotOwnerUpdate, ctx)
                    else PutState ctx geoCacheId
                           (json_Marshal (geoCache\<lparr>XcoordRange := newXcoordRange,
                              YcoordRange := newYcoordRange\<rparr>))))"

definition DeleteGeoCache ::
  "(string \<Rightarrow> string) \<Rightarrow> GeoCache stub \<Rightarrow> User \<Rightarrow> string \<Rightarrow> error option \<times> GeoCache stub" where
  "DeleteGeoCache sha1 ctx user geoCacheId =
     (case GeoCacheExists ctx geoCacheId of
        (exists, Some err) \<Rightarrow> (Some (WorldStateReadError err), ctx)
      | (exists, None) \<Rightarrow>
          if \<not> exists then (Some (DoesNotExist geoCacheId), ctx)
          else (case json_Unmarshal (fst (GetState ctx geoCacheId)) of
                  None \<Rightarrow> (Some UnmarshalError, ctx)
                | Some geoCache \<Rightarrow>
                    if User_Id (Owner geoCache)
                         \<noteq> myHash sha1 (User_Id user @ User_Salt (Owner geoCache))
                    then (Some NotOwnerUpdate, ctx)
                    else DelState ctx geoCacheId))"

definition ReportGeoCache ::
  "GeoCache stub \<Rightarrow> User \<Rightarrow> string \<Rightarrow> string \<Rightarrow> string \<Rightarrow> error option \<times> GeoCache stub" where
  "ReportGeoCache ctx user message geoCacheId reportId =
     (case GeoCacheExists ctx geoCacheId of
        (exists, Some err) \<Rightarrow> (Some (WorldStateReadError err), ctx)
      | (exists, None) \<Rightarrow>
          if \<not> exists then (Some (DoesNotExist geoCacheId), ctx)
          else (case json_Unmarshal (fst (GetState ctx geoCacheId)) of
                  None \<Rightarrow> (Some UnmarshalError, ctx)
                | Some geoCache \<Rightarrow>
                    let report = new_Report\<lparr>Report_Id := reportId,
                          Report_Message := message, Report_Notifier := user\<rparr>
                    in PutState ctx geoCacheId
                         (json_Marshal (geoCache\<lparr>Reports :=
                            Reports geoCache @ [report]\<rparr>))))"

definition GetReports ::
  "(string \<Rightarrow> string) \<Rightarrow> GeoCache stub \<Rightarrow> User \<Rightarrow> string \<Rightarrow> error + Report list" where
  "GetReports sha1 ctx user geoCacheId =
     (case GeoCacheExists ctx geoCacheId of
        (exists, Some err) \<Rightarrow> Inl (WorldStateReadError err)
      | (exists, None) \<Rightarrow>
          if \<not> exists then Inl (DoesNotExist geoCacheId)
          else (case json_Unmarshal (fst (GetState ctx geoCacheId)) of
                  None \<Rightarrow> Inl UnmarshalError
                | Some geoCache \<Rightarrow>
                    if User_Id (Owner geoCache)
                         \<noteq> myHash sha1 (User_Id user @ User_Salt (Owner geoCache))
                    then Inl NotOwnerReports
                    else Inr (Reports geoCache)))"



text \<open>The record that \<open>CreateGeoCache\<close> builds, field by field.\<close>

definition created ::
  "(string \<Rightarrow> string) \<Rightarrow> User \<Rightarrow> string \<Rightarrow> string \<Rightarrow> int \<times> int \<Rightarrow> int \<times> int \<Rightarrow>
   string \<Rightarrow> string \<Rightarrow> string \<Rightarrow> GeoCache" where
  "created sha1 user name description newXcoordRange newYcoordRange trackableValue salt trackableId =
     \<lparr>GeoCache_Id = [], Name = name, Description = description,
      XcoordRange = newXcoordRange, YcoordRange = newYcoordRange,
      Owner = \<lparr>User_Id = myHash sha1 (User_Id user @ salt), User_Name = User_Name user,
               User_Salt = salt\<rparr>,
      Reports = [], Visitors = [],
      Trackable = \<lparr>Trackable_Id = trackableId, Trackable_Value = trackableValue\<rparr>\<rparr>"

section \<open>The contract that stores the owner in the clear\<close>

text \<open>
  The first unit of \<open>src/geo-cache-contract.go\<close> goes with the type file in which \<open>User\<close>
  has no salt. Its \<open>UpdateGeoCache\<close>, \<open>SwitchTrackable\<close> and \<open>UpdateCoordGeoCache\<close> do
  not read the stored record: they work on \<open>new(GeoCache)\<close>. The trackable id that
  \<open>CreateGeoCache\<close> draws from \<open>rand.Intn\<close> is the argument \<open>trackableId\<close>.
\<close>

record User_plain =
  User_plain_Id :: string
  User_plain_Name :: string

record Report_plain =
  Report_plain_Id :: string
  Report_plain_Message :: string
  Report_plain_Notifier :: User_plain

record GeoCache_plain =
  GeoCache_plain_Id :: string
  Name_plain :: string
  Description_plain :: string
  XcoordRange_plain :: "int \<times> int"
  YcoordRange_plain :: "int \<times> int"
  Owner_plain :: User_plain
  Reports_plain :: "Report_plain list"
  Visitors_plain :: "User_plain list"
  Trackable_plain :: Trackable

definition new_User_plain :: User_plain where
  "new_User_plain = \<lparr>User_plain_Id = [], User_plain_Name = []\<rparr>"

definition new_GeoCache_plain :: GeoCache_plain where
  "new_GeoCache_plain = \<lparr>GeoCache_plain_Id = [], Name_plain = [], Description_plain = [],
     XcoordRange_plain = (0, 0), YcoordRange_plain = (0, 0), Owner_plain = new_User_plain,
     Reports_plain = [], Visitors_plain = [], Trackable_plain = new_Trackable\<rparr>"

definition CreateGeoCache_plain ::
  "GeoCache_plain stub \<Rightarrow> User_plain \<Rightarrow> string \<Rightarrow> string \<Rightarrow> string \<Rightarrow> int \<times> int \<Rightarrow> int \<times> int \<Rightarrow>
   string \<Rightarrow> error option \<times> GeoCache_plain stub" where
  "CreateGeoCache_plain ctx user geoCacheID name description newXcoordRange newYcoordRange
     trackableId =
     (case GeoCacheExists ctx geoCacheID of
        (exists, Some err) \<Rightarrow> (Some (WorldStateReadError err), ctx)
      | (exists, None) \<Rightarrow>
          if exists then (Some (AlreadyExists geoCacheID), ctx)
          else
            let geoCache = new_GeoCache_plain\<lparr>Name_plain := name,
                  Description_plain := description,
                  XcoordRange_plain := newXcoordRange, YcoordRange_plain := newYcoordRange,
                  Owner_plain := user, Reports_plain := [], Visitors_plain := []\<rparr>;
                trackable = new_Trackable\<lparr>Trackable_Id := trackableId,
                  Trackable_Value := ''You are the first, who discovered this cache!''\<rparr>;
                geoCache = geoCache\<lparr>Trackable_plain := trackable\<rparr>
            in PutState ctx geoCacheID (json_Marshal geoCache))"

definition UpdateGeoCache_plain ::
  "GeoCache_plain stub \<Rightarrow> string \<Rightarrow> string \<Rightarrow> string \<Rightarrow> string \<Rightarrow>
   error option \<times> GeoCache_plain stub" where
  "UpdateGeoCache_plain ctx userId geoCacheID newName newDescription =
     (case GeoCacheExists ctx geoCacheID of
        (exists, Some err) \<Rightarrow> (Some (WorldStateReadError err), ctx)
      | (exists, None) \<Rightarrow>
          if \<not> exists then (Some (DoesNotExist geoCacheID), ctx)
          else
            let geoCache = new_GeoCache_plain
            in if User_plain_Id (Owner_plain geoCache) \<noteq> userId
               then (Some NotOwnerUpdate, ctx)
               else PutState ctx geoCacheID
                      (json_Marshal (geoCache\<lparr>Name_plain := newName,
                         Description_plain := newDescription\<rparr>)))"

definition SwitchTrackable_plain ::
  "GeoCache_plain stub \<Rightarrow> Trackable \<Rightarrow> string \<Rightarrow>
   (Trackable option \<times> error option) \<times> GeoCache_plain stub" where
  "SwitchTrackable_plain ctx trackable geoCacheId =
     (case GeoCacheExists ctx geoCacheId of
        (exists, Some err) \<Rightarrow> ((None, Some (WorldStateReadError err)), ctx)
      | (exists, None) \<Rightarrow>
          if \<not> exists then ((None, Some (DoesNotExist geoCacheId)), ctx)
          else
            let geoCache = new_GeoCache_plain;
                cacheTrackable = Trackable_plain geoCache;
                geoCache = geoCache\<lparr>Trackable_plain := trackable\<rparr>;
                (err, ctx') = PutState ctx geoCacheId (json_Marshal geoCache)
            in ((Some cacheTrackable, err), ctx'))"

definition UpdateCoordGeoCache_plain ::
  "GeoCache_plain stub \<Rightarrow> string \<Rightarrow> string \<Rightarrow> int \<times> int \<Rightarrow> int \<times> int \<Rightarrow>
   error option \<times> GeoCache_plain stub" where
  "UpdateCoordGeoCache_plain ctx geoCacheID newValue newXcoordRange newYcoordRange =
     (case GeoCacheExists ctx geoCacheID of
        (exists, Some err) \<Rightarrow> (Some (WorldStateReadError err), ctx)
      | (exists, None) \<Rightarrow>
          if \<not> exists then (Some (DoesNotExist geoCacheID), ctx)
          else
            let geoCache = new_GeoCache_plain\<lparr>XcoordRange_plain := newXcoordRange,
                  YcoordRange_plain := newYcoordRange\<rparr>
            in PutState ctx geoCacheID (json_Marshal geoCache))"

section \<open>The test fixture\<close>

text \<open>
  \<open>configureStub\<close> of the contract's tests: \<open>"statebad"\<close> fails to read, \<open>"missingkey"\<close>
  is absent, \<open>"existingkey"\<close> holds bytes that are no record, \<open>"geoCachekey"\<close> holds the
  test record, whose owner id is \<open>myHash("123" + "123")\<close>; \<open>PutState\<close> and \<open>DelState\<close>
  return nil for every key.
\<close>

definition testGeoCache :: "(string \<Rightarrow> string) \<Rightarrow> GeoCache" where
  "testGeoCache sha1 =
     (let u = \<lparr>User_Id = myHash sha1 (''123'' @ ''123''), User_Name = ''TestUser'',
                User_Salt = ''123''\<rparr>
      in new_GeoCache\<lparr>Name := ''set value'', Owner := u,
           XcoordRange := (5, 10), YcoordRange := (5, 10),
           Trackable := \<lparr>Trackable_Id = ''testId'', Trackable_Value = ''testValue''\<rparr>,
           Reports := [\<lparr>Report_Id = ''testId'', Report_Message = ''TestMessage'',
                        Report_Notifier = u\<rparr>]\<rparr>)"

definition configureStub :: "(string \<Rightarrow> string) \<Rightarrow> GeoCache stub" where
  "configureStub sha1 =
     \<lparr>world = [''existingkey'' \<mapsto> Other ''some value'',
               ''geoCachekey'' \<mapsto> JSON (testGeoCache sha1)],
      getStateErr = [''statebad'' \<mapsto> ''world state get error''],
      putStateErr = Map.empty,
      delStateErr = Map.empty\<rparr>"

text \<open>The caller of the tests, and a second caller.\<close>

definition testUser :: User where
  "testUser = \<lparr>User_Id = ''123'', User_Name = ''TestUser'', User_Salt = ''123''\<rparr>"


text \<open>
  A context with an empty world state, for the contract that stores the owner in the
  clear.
\<close>

definition emptyStub :: "'a stub" where
  "emptyStub = \<lparr>world = Map.empty, getStateErr = Map.empty, putStateErr = Map.empty,
     delStateErr = Map.empty\<rparr>"

text \<open>
  A one-byte additive checksum, the digest of the worked examples: any function from
  bytes to bytes can stand for the parameter \<open>sha1\<close>.
\<close>

definition checksum8 :: "string \<Rightarrow> string" where
  "checksum8 s = [char_of (sum_list (map of_char s) + (1::nat))]"

section \<open>Basic facts\<close>

lemmas stub_defs = GeoCacheExists_def GetState_def PutState_def DelState_def json_Marshal_def

subsection \<open>The loop of \<open>myHash\<close>\<close>


subsection \<open>The hexadecimal encoding is injective\<close>









subsection \<open>The checksum of the examples\<close>



section \<open>The claims\<close>

subsection \<open>C3: the number of digest applications\<close>



subsection \<open>C8: operations on an absent key\<close>

text \<open>
  C8: when the read of a key succeeds and finds nothing, each of \<open>ReadGeoCache\<close>,
  \<open>UpdateGeoCache\<close>, \<open>UpdateCoordGeoCache\<close>, \<open>DeleteGeoCache\<close>, \<open>ReportGeoCache\<close>,
  \<open>GetReports\<close> and \<open>AddVisitorToGeoCache\<close> fails with the does-not-exist error for that
  key, and the context it returns is the one it was given: nothing was written or deleted.
\<close>

theorem absent_key_rejected:
  assumes "getStateErr ctx k = None" and "world ctx k = None"
  shows "ReadGeoCache ctx k = Inl (DoesNotExist k)
    \<and> UpdateGeoCache sha1 ctx user k newName newDescription = (Some (DoesNotExist k), ctx)
    \<and> UpdateCoordGeoCache sha1 ctx user k xr yr = (Some (DoesNotExist k), ctx)
    \<and> DeleteGeoCache sha1 ctx user k = (Some (DoesNotExist k), ctx)
    \<and> ReportGeoCache ctx user msg k rid = (Some (DoesNotExist k), ctx)
    \<and> GetReports sha1 ctx user k = Inl (DoesNotExist k)
    \<and> AddVisitorToGeoCache ctx user k x y = (Some (DoesNotExist k), ctx)"
  using assms
  by (simp add: ReadGeoCache_def UpdateGeoCache_def UpdateCoordGeoCache_def DeleteGeoCache_def
      ReportGeoCache_def GetReports_def AddVisitorToGeoCache_def stub_defs)

theorem absent_key_rejected_witness:
  "getStateErr (configureStub checksum8) ''missingkey'' = None
    \<and> world (configureStub checksum8) ''missingkey'' = None
    \<and> ReadGeoCache (configureStub checksum8) ''missingkey'' = Inl (DoesNotExist ''missingkey'')
    \<and> UpdateGeoCache checksum8 (configureStub checksum8) testUser ''missingkey'' ''new value''
          ''newDescription'' = (Some (DoesNotExist ''missingkey''), configureStub checksum8)
    \<and> UpdateCoordGeoCache checksum8 (configureStub checksum8) testUser ''missingkey'' (7, 10)
          (7, 10) = (Some (DoesNotExist ''missingkey''), configureStub checksum8)
    \<and> DeleteGeoCache checksum8 (configureStub checksum8) testUser ''missingkey''
          = (Some (DoesNotExist ''missingkey''), configureStub checksum8)
    \<and> ReportGeoCache (configureStub checksum8) testUser ''reportMessage'' ''missingkey''
          ''r0000001'' = (Some (DoesNotExist ''missingkey''), configureStub checksum8)
    \<and> GetReports checksum8 (configureStub checksum8) testUser ''missingkey''
          = Inl (DoesNotExist ''missingkey'')
    \<and> AddVisitorToGeoCache (configureStub checksum8) testUser ''missingkey'' 6 6
          = (Some (DoesNotExist ''missingkey''), configureStub checksum8)"
proof -
  have r: "getStateErr (configureStub checksum8) ''missingkey'' = None"
    and w: "world (configureStub checksum8) ''missingkey'' = None"
    by (simp_all add: configureStub_def)
  show ?thesis
    using r w absent_key_rejected [OF r w, of checksum8 testUser "''new value''"
      "''newDescription''" "(7, 10)" "(7, 10)" "''reportMessage''" "''r0000001''" 6 6]
    by simp
qed

subsection \<open>C5: creation against a live key\<close>

text \<open>
  C5: when the existence check of a key returns true, \<open>CreateGeoCache\<close> fails with the
  already-exists error and returns the context unchanged, so the value stored under the
  key is the one that was there.
\<close>

theorem create_existing_rejected:
  assumes "GeoCacheExists ctx k = (True, None)"
  shows "CreateGeoCache sha1 ctx user k name description xr yr tv salt tid
           = (Some (AlreadyExists k), ctx)"
  using assms by (simp add: CreateGeoCache_def)

theorem create_existing_rejected_witness:
  "GeoCacheExists (configureStub checksum8) ''existingkey'' = (True, None)
    \<and> CreateGeoCache checksum8 (configureStub checksum8) testUser ''existingkey'' ''some value''
         ''testDescription'' (5, 10) (5, 10) ''asd'' ''salt0001'' ''track001''
       = (Some (AlreadyExists ''existingkey''), configureStub checksum8)"
proof -
  have e: "GeoCacheExists (configureStub checksum8) ''existingkey'' = (True, None)"
    by (simp add: configureStub_def stub_defs)
  show ?thesis
    using e create_existing_rejected [OF e, of checksum8 testUser "''some value''"
      "''testDescription''" "(5, 10)" "(5, 10)" "''asd''" "''salt0001''" "''track001''"]
    by simp
qed

subsection \<open>Facts about the test fixture and about creation\<close>

lemma configureStub_geoCachekey:
  "getStateErr (configureStub sha1) ''geoCachekey'' = None"
  "world (configureStub sha1) ''geoCachekey'' = Some (JSON (testGeoCache sha1))"
  "putStateErr (configureStub sha1) ''geoCachekey'' = None"
  "delStateErr (configureStub sha1) ''geoCachekey'' = None"
  by (simp_all add: configureStub_def)

lemma configureStub_missingkey:
  "getStateErr (configureStub sha1) ''missingkey'' = None"
  "world (configureStub sha1) ''missingkey'' = None"
  "putStateErr (configureStub sha1) ''missingkey'' = None"
  by (simp_all add: configureStub_def)

lemma testGeoCache_owner:
  "User_Id (Owner (testGeoCache sha1))
     = myHash sha1 (User_Id testUser @ User_Salt (Owner (testGeoCache sha1)))"
  by (simp add: testGeoCache_def testUser_def Let_def)

lemma CreateGeoCache_fresh:
  assumes "getStateErr ctx k = None" and "world ctx k = None" and "putStateErr ctx k = None"
  shows "CreateGeoCache sha1 ctx user k name description xr yr tv salt tid
     = (None, ctx\<lparr>world := (world ctx)(k \<mapsto> JSON (created sha1 user name description xr yr tv salt tid))\<rparr>)"
  using assms
  by (cases user) (simp add: CreateGeoCache_def stub_defs Let_def created_def new_GeoCache_def new_Trackable_def new_User_def)

lemma no_integer_between: "(\<forall>x::int. \<not> (a < x \<and> x < b)) \<longleftrightarrow> b \<le> a + 1"
proof
  assume h: "\<forall>x::int. \<not> (a < x \<and> x < b)"
  show "b \<le> a + 1"
  proof (rule ccontr)
    assume "\<not> b \<le> a + 1"
    then have "a < a + 1 \<and> a + 1 < b" by simp
    with h show False by blast
  qed
next
  assume "b \<le> a + 1"
  then show "\<forall>x::int. \<not> (a < x \<and> x < b)" by auto
qed

subsection \<open>C2: the geofence\<close>



subsection \<open>C9: the life cycle of a deleted key\<close>

text \<open>
  C9: when the owner deletes an existing record and the stub's delete succeeds, the key
  is gone from the world state, \<open>GeoCacheExists\<close> then returns false, and a second
  \<open>DeleteGeoCache\<close> on the key, by any caller, fails with the does-not-exist error.
\<close>

theorem delete_lifecycle:
  assumes "getStateErr ctx k = None" and "world ctx k = Some (JSON g)"
    and "delStateErr ctx k = None"
    and "User_Id (Owner g) = myHash sha1 (User_Id user @ User_Salt (Owner g))"
  shows "DeleteGeoCache sha1 ctx user k = (None, ctx\<lparr>world := (world ctx)(k := None)\<rparr>)
    \<and> GeoCacheExists (ctx\<lparr>world := (world ctx)(k := None)\<rparr>) k = (False, None)
    \<and> DeleteGeoCache sha1 (ctx\<lparr>world := (world ctx)(k := None)\<rparr>) user' k
          = (Some (DoesNotExist k), ctx\<lparr>world := (world ctx)(k := None)\<rparr>)"
  using assms by (simp add: DeleteGeoCache_def stub_defs)

theorem delete_lifecycle_witness:
  "getStateErr (configureStub checksum8) ''geoCachekey'' = None
   \<and> world (configureStub checksum8) ''geoCachekey'' = Some (JSON (testGeoCache checksum8))
   \<and> delStateErr (configureStub checksum8) ''geoCachekey'' = None
   \<and> User_Id (Owner (testGeoCache checksum8))
       = myHash checksum8 (User_Id testUser @ User_Salt (Owner (testGeoCache checksum8)))
   \<and> DeleteGeoCache checksum8 (configureStub checksum8) testUser ''geoCachekey''
       = (None, (configureStub checksum8)\<lparr>world := (world (configureStub checksum8))
            (''geoCachekey'' := None)\<rparr>)
   \<and> GeoCacheExists ((configureStub checksum8)\<lparr>world := (world (configureStub checksum8))
            (''geoCachekey'' := None)\<rparr>) ''geoCachekey'' = (False, None)
   \<and> DeleteGeoCache checksum8 ((configureStub checksum8)\<lparr>world :=
            (world (configureStub checksum8))(''geoCachekey'' := None)\<rparr>) testUser ''geoCachekey''
       = (Some (DoesNotExist ''geoCachekey''), (configureStub checksum8)\<lparr>world :=
            (world (configureStub checksum8))(''geoCachekey'' := None)\<rparr>)"
proof -
  note h = configureStub_geoCachekey(1,2,4) [of checksum8]
  note o = testGeoCache_owner [of checksum8]
  show ?thesis
    using h o delete_lifecycle [OF h o, of testUser] by simp
qed

subsection \<open>C10: ranges that admit no position\<close>

text \<open>
  C10: \<open>CreateGeoCache\<close> stores whatever ranges it is given, in any order. When no
  integer lies strictly between the two ends of the x range (by \<open>no_integer_between\<close>,
  when the upper end is at most the lower end plus one), every
  \<open>AddVisitorToGeoCache\<close> on the created record fails with the out-of-range error, for
  every caller and every position.
\<close>

theorem empty_range_never_visited:
  assumes "getStateErr ctx k = None" and "world ctx k = None" and "putStateErr ctx k = None"
    and "\<forall>x. \<not> (fst xr < x \<and> x < snd xr)"
  shows "CreateGeoCache sha1 ctx user k name description xr yr tv salt tid
       = (None, ctx\<lparr>world := (world ctx)
            (k \<mapsto> JSON (created sha1 user name description xr yr tv salt tid))\<rparr>)
     \<and> XcoordRange (created sha1 user name description xr yr tv salt tid) = xr
     \<and> (\<forall>visitor x y. AddVisitorToGeoCache (ctx\<lparr>world := (world ctx)
            (k \<mapsto> JSON (created sha1 user name description xr yr tv salt tid))\<rparr>) visitor k x y
          = (Some NotInRange, ctx\<lparr>world := (world ctx)
            (k \<mapsto> JSON (created sha1 user name description xr yr tv salt tid))\<rparr>))"
proof -
  have c: "CreateGeoCache sha1 ctx user k name description xr yr tv salt tid
       = (None, ctx\<lparr>world := (world ctx)
            (k \<mapsto> JSON (created sha1 user name description xr yr tv salt tid))\<rparr>)"
    using assms(1-3) by (rule CreateGeoCache_fresh)
  have r: "XcoordRange (created sha1 user name description xr yr tv salt tid) = xr"
    by (simp add: created_def)
  have "AddVisitorToGeoCache (ctx\<lparr>world := (world ctx)
            (k \<mapsto> JSON (created sha1 user name description xr yr tv salt tid))\<rparr>) visitor k x y
          = (Some NotInRange, ctx\<lparr>world := (world ctx)
            (k \<mapsto> JSON (created sha1 user name description xr yr tv salt tid))\<rparr>)"
    for visitor x y
  proof -
    from assms(4) have "\<not> (fst xr < x \<and> x < snd xr)" by blast
    with assms(1) r show ?thesis
      by (auto simp add: AddVisitorToGeoCache_def stub_defs Let_def)
  qed
  with c r show ?thesis by blast
qed

theorem empty_range_never_visited_witness:
  "getStateErr (configureStub checksum8) ''missingkey'' = None
   \<and> world (configureStub checksum8) ''missingkey'' = None
   \<and> putStateErr (configureStub checksum8) ''missingkey'' = None
   \<and> (\<forall>x::int. \<not> (fst (10::int, 5::int) < x \<and> x < snd (10::int, 5::int)))
   \<and> CreateGeoCache checksum8 (configureStub checksum8) testUser ''missingkey'' ''some value''
        ''testDescription'' (10, 5) (5, 10) ''asd'' ''salt0001'' ''track001''
      = (None, (configureStub checksum8)\<lparr>world := (world (configureStub checksum8))
           (''missingkey'' \<mapsto> JSON (created checksum8 testUser ''some value'' ''testDescription''
              (10, 5) (5, 10) ''asd'' ''salt0001'' ''track001''))\<rparr>)
   \<and> AddVisitorToGeoCache ((configureStub checksum8)\<lparr>world := (world (configureStub checksum8))
           (''missingkey'' \<mapsto> JSON (created checksum8 testUser ''some value'' ''testDescription''
              (10, 5) (5, 10) ''asd'' ''salt0001'' ''track001''))\<rparr>) testUser ''missingkey'' 7 7
      = (Some NotInRange, (configureStub checksum8)\<lparr>world := (world (configureStub checksum8))
           (''missingkey'' \<mapsto> JSON (created checksum8 testUser ''some value'' ''testDescription''
              (10, 5) (5, 10) ''asd'' ''salt0001'' ''track001''))\<rparr>)"
proof -
  note h = configureStub_missingkey [of checksum8]
  have e: "\<forall>x::int. \<not> (fst (10::int, 5::int) < x \<and> x < snd (10::int, 5::int))"
    by simp
  show ?thesis
    using h e empty_range_never_visited [OF h e, of checksum8 testUser "''some value''"
      "''testDescription''" "(5, 10)" "''asd''" "''salt0001''" "''track001''"]
    by blast
qed

subsection \<open>Reports and the owner check on a stored record\<close>






subsection \<open>C7: reports are appended and only the owner reads them\<close>



subsection \<open>What the owner check lets through and what it stops\<close>



lemma UpdateCoordGeoCache_owner:
  assumes "getStateErr ctx k = None" and "world ctx k = Some (JSON g)"
    and "putStateErr ctx k = None"
    and "User_Id (Owner g) = myHash sha1 (User_Id user @ User_Salt (Owner g))"
  shows "UpdateCoordGeoCache sha1 ctx user k newXcoordRange newYcoordRange
     = (None, ctx\<lparr>world := (world ctx)
          (k \<mapsto> JSON (g\<lparr>XcoordRange := newXcoordRange, YcoordRange := newYcoordRange\<rparr>))\<rparr>)"
  using assms by (simp add: UpdateCoordGeoCache_def stub_defs)

lemma SwitchTrackable_existing:
  assumes "getStateErr ctx k = None" and "world ctx k = Some (JSON g)"
    and "putStateErr ctx k = None"
  shows "SwitchTrackable ctx trackable k
     = ((Some (Trackable g), None),
        ctx\<lparr>world := (world ctx)(k \<mapsto> JSON (g\<lparr>Trackable := trackable\<rparr>))\<rparr>)"
  using assms by (simp add: SwitchTrackable_def stub_defs Let_def)

lemma SwitchTrackable_round_trip:
  assumes "getStateErr ctx k = None" and "world ctx k = Some (JSON g)"
    and "putStateErr ctx k = None"
  shows "SwitchTrackable (snd (SwitchTrackable ctx T1 k)) (Trackable g) k
     = ((Some T1, None), ctx)"
proof -
  let ?g1 = "g\<lparr>Trackable := T1\<rparr>"
  let ?ctx1 = "ctx\<lparr>world := (world ctx)(k \<mapsto> JSON ?g1)\<rparr>"
  have first: "SwitchTrackable ctx T1 k = ((Some (Trackable g), None), ?ctx1)"
    using assms by (rule SwitchTrackable_existing)
  have again: "SwitchTrackable ?ctx1 (Trackable g) k
     = ((Some (Trackable ?g1), None),
        ?ctx1\<lparr>world := (world ?ctx1)(k \<mapsto> JSON (?g1\<lparr>Trackable := Trackable g\<rparr>))\<rparr>)"
    using assms by (intro SwitchTrackable_existing) simp_all
  have triv: "(world ctx)(k \<mapsto> JSON g) = world ctx"
    using assms(2) by (simp add: map_upd_triv)
  have "SwitchTrackable ?ctx1 (Trackable g) k = ((Some T1, None), ctx)"
    by (simp add: again triv)
  then show ?thesis
    by (simp only: first snd_conv)
qed



subsection \<open>C1: the ownership gate\<close>




subsection \<open>The contract that stores the owner in the clear, on a live key\<close>

text \<open>
  Whatever is stored under the key, this contract's update and switch methods write a
  record built from \<open>new(GeoCache)\<close>; \<open>UpdateGeoCache\<close> compares the caller with the
  empty owner id of that fresh record, so it lets through the empty id and nobody else.
\<close>

lemma UpdateGeoCache_plain_existing:
  assumes "getStateErr ctx k = None" and "world ctx k = Some v" and "putStateErr ctx k = None"
  shows "UpdateGeoCache_plain ctx userId k newName newDescription =
     (if userId \<noteq> [] then (Some NotOwnerUpdate, ctx)
      else (None, ctx\<lparr>world := (world ctx)
              (k \<mapsto> JSON (new_GeoCache_plain\<lparr>Name_plain := newName,
                 Description_plain := newDescription\<rparr>))\<rparr>))"
  using assms
  by (auto simp add: UpdateGeoCache_plain_def stub_defs Let_def new_GeoCache_plain_def
      new_User_plain_def)

lemma UpdateCoordGeoCache_plain_existing:
  assumes "getStateErr ctx k = None" and "world ctx k = Some v" and "putStateErr ctx k = None"
  shows "UpdateCoordGeoCache_plain ctx k newValue newXcoordRange newYcoordRange =
     (None, ctx\<lparr>world := (world ctx)
        (k \<mapsto> JSON (new_GeoCache_plain\<lparr>XcoordRange_plain := newXcoordRange,
           YcoordRange_plain := newYcoordRange\<rparr>))\<rparr>)"
  using assms
  by (simp add: UpdateCoordGeoCache_plain_def stub_defs Let_def)

lemma SwitchTrackable_plain_existing:
  assumes "getStateErr ctx k = None" and "world ctx k = Some v" and "putStateErr ctx k = None"
  shows "SwitchTrackable_plain ctx trackable k =
     ((Some new_Trackable, None), ctx\<lparr>world := (world ctx)
        (k \<mapsto> JSON (new_GeoCache_plain\<lparr>Trackable_plain := trackable\<rparr>))\<rparr>)"
  using assms
  by (simp add: SwitchTrackable_plain_def stub_defs Let_def new_GeoCache_plain_def)

lemma CreateGeoCache_plain_emptyStub:
  "CreateGeoCache_plain emptyStub user k name description xr yr tid =
     (None, emptyStub\<lparr>world := [k \<mapsto> JSON
        \<lparr>GeoCache_plain_Id = [], Name_plain = name, Description_plain = description,
         XcoordRange_plain = xr, YcoordRange_plain = yr, Owner_plain = user,
         Reports_plain = [], Visitors_plain = [],
         Trackable_plain = \<lparr>Trackable_Id = tid,
           Trackable_Value = ''You are the first, who discovered this cache!''\<rparr>\<rparr>]\<rparr>)"
  by (simp add: CreateGeoCache_plain_def emptyStub_def stub_defs Let_def new_GeoCache_plain_def
      new_Trackable_def)

subsection \<open>C4: the frame of the updates\<close>

text \<open>
  C4: a successful owner call of \<open>UpdateGeoCache\<close> changes only \<open>Name\<close> and
  \<open>Description\<close> of the stored record, and one of \<open>UpdateCoordGeoCache\<close> only the two
  ranges. The current contract does this (\<open>UpdateGeoCache_owner\<close>,
  \<open>UpdateCoordGeoCache_owner\<close>: the record written is the stored one with the two fields
  replaced). The contract that stores the owner in the clear does not. On the record that
  user \<open>123\<close> created with name \<open>testName\<close> and ranges \<open>[5, 10]\<close>,
  \<open>UpdateCoordGeoCache\<close> succeeds and leaves a record whose name, description, owner
  and trackable are empty; on a record created by the user with the empty id,
  \<open>UpdateGeoCache\<close> by that user succeeds and leaves the ranges \<open>[0, 0]\<close> and the owner
  and trackable empty; and the owner \<open>123\<close> is refused.
\<close>

theorem update_plain_discards_record:
  "UpdateCoordGeoCache_plain
     (snd (CreateGeoCache_plain emptyStub \<lparr>User_plain_Id = ''123'', User_plain_Name = ''testName''\<rparr>
        ''testId'' ''testName'' ''testDescription'' (5, 10) (5, 10) ''track001''))
     ''testId'' [] (4, 10) (4, 10)
   = (None, emptyStub\<lparr>world := [''testId'' \<mapsto> JSON
        \<lparr>GeoCache_plain_Id = [], Name_plain = [], Description_plain = [],
         XcoordRange_plain = (4, 10), YcoordRange_plain = (4, 10),
         Owner_plain = \<lparr>User_plain_Id = [], User_plain_Name = []\<rparr>,
         Reports_plain = [], Visitors_plain = [],
         Trackable_plain = \<lparr>Trackable_Id = [], Trackable_Value = []\<rparr>\<rparr>]\<rparr>)
   \<and> UpdateGeoCache_plain
     (snd (CreateGeoCache_plain emptyStub \<lparr>User_plain_Id = [], User_plain_Name = ''testName''\<rparr>
        ''testId'' ''testName'' ''testDescription'' (5, 10) (5, 10) ''track001''))
     [] ''testId'' ''newName'' ''newDescription''
   = (None, emptyStub\<lparr>world := [''testId'' \<mapsto> JSON
        \<lparr>GeoCache_plain_Id = [], Name_plain = ''newName'',
         Description_plain = ''newDescription'',
         XcoordRange_plain = (0, 0), YcoordRange_plain = (0, 0),
         Owner_plain = \<lparr>User_plain_Id = [], User_plain_Name = []\<rparr>,
         Reports_plain = [], Visitors_plain = [],
         Trackable_plain = \<lparr>Trackable_Id = [], Trackable_Value = []\<rparr>\<rparr>]\<rparr>)
   \<and> UpdateGeoCache_plain
     (snd (CreateGeoCache_plain emptyStub \<lparr>User_plain_Id = ''123'', User_plain_Name = ''testName''\<rparr>
        ''testId'' ''testName'' ''testDescription'' (5, 10) (5, 10) ''track001''))
     ''123'' ''testId'' ''newName'' ''newDescription''
   = (Some NotOwnerUpdate,
      snd (CreateGeoCache_plain emptyStub \<lparr>User_plain_Id = ''123'', User_plain_Name = ''testName''\<rparr>
        ''testId'' ''testName'' ''testDescription'' (5, 10) (5, 10) ''track001''))"
  unfolding CreateGeoCache_plain_emptyStub snd_conv
  by (simp add: UpdateCoordGeoCache_plain_def UpdateGeoCache_plain_def stub_defs Let_def
      new_GeoCache_plain_def new_User_plain_def new_Trackable_def emptyStub_def)

subsection \<open>C6: the round trip of the trackable\<close>

text \<open>
  C6: \<open>SwitchTrackable\<close> with \<open>T1\<close> on a record storing \<open>T0\<close> returns \<open>T0\<close> and leaves
  the record with \<open>T1\<close> and every other field as it was; switching \<open>T0\<close> back in
  returns \<open>T1\<close> and restores the record. The current contract does this
  (\<open>SwitchTrackable_existing\<close>, \<open>SwitchTrackable_round_trip\<close>). The contract that
  stores the owner in the clear does not: on the record created with the trackable
  \<open>track001\<close>, switching in the trackable \<open>456\<close> returns the empty trackable and leaves
  a record that has lost its name, description, ranges and owner, and switching
  \<open>track001\<close> back in returns the empty trackable again, not \<open>456\<close>.
\<close>

theorem switch_plain_returns_zero_trackable:
  "SwitchTrackable_plain
     (snd (CreateGeoCache_plain emptyStub \<lparr>User_plain_Id = ''123'', User_plain_Name = ''testName''\<rparr>
        ''testId'' ''testName'' ''testDescription'' (5, 10) (5, 10) ''track001''))
     \<lparr>Trackable_Id = ''456'', Trackable_Value = ''testValue''\<rparr> ''testId''
   = ((Some \<lparr>Trackable_Id = [], Trackable_Value = []\<rparr>, None),
      emptyStub\<lparr>world := [''testId'' \<mapsto> JSON
        \<lparr>GeoCache_plain_Id = [], Name_plain = [], Description_plain = [],
         XcoordRange_plain = (0, 0), YcoordRange_plain = (0, 0),
         Owner_plain = \<lparr>User_plain_Id = [], User_plain_Name = []\<rparr>,
         Reports_plain = [], Visitors_plain = [],
         Trackable_plain = \<lparr>Trackable_Id = ''456'', Trackable_Value = ''testValue''\<rparr>\<rparr>]\<rparr>)
   \<and> fst (SwitchTrackable_plain
       (snd (SwitchTrackable_plain
          (snd (CreateGeoCache_plain emptyStub
             \<lparr>User_plain_Id = ''123'', User_plain_Name = ''testName''\<rparr>
             ''testId'' ''testName'' ''testDescription'' (5, 10) (5, 10) ''track001''))
          \<lparr>Trackable_Id = ''456'', Trackable_Value = ''testValue''\<rparr> ''testId''))
       \<lparr>Trackable_Id = ''track001'',
         Trackable_Value = ''You are the first, who discovered this cache!''\<rparr> ''testId'')
     = (Some \<lparr>Trackable_Id = [], Trackable_Value = []\<rparr>, None)"
  unfolding CreateGeoCache_plain_emptyStub snd_conv
  by (simp add: SwitchTrackable_plain_def stub_defs Let_def new_GeoCache_plain_def
      new_User_plain_def new_Trackable_def emptyStub_def)

end
